theory Spec2Isabelle
  imports Main "HOL-Library.Word"
begin

section \<open>Run-time errors\<close>

text \<open>
  Everything the TypeScript code can throw is a value of \<open>error\<close>.
  \<open>OptionValidationError\<close> carries the fields the validator reads from it
  (\<open>constraint\<close>, \<open>field\<close>, \<open>value\<close>, \<open>message\<close>); the class of the constraint
  object is declared outside this file, so it is the type parameter \<open>'c\<close>.
  The value type is \<open>T1 = string\<close>.  \<open>TypeError\<close> is what the JavaScript run time
  raises itself (reducing an empty array, reading a property of \<open>null\<close>); \<open>Error\<close>
  is any other thrown value (a failed query, a failed fetch).
\<close>

datatype 'c error =
    OptionValidationError 'c string string string
  | TypeError string
  | Error string

section \<open>guildsettings.ts: the current tournament of a guild\<close>

text \<open>
  An \<open>ObjectId\<close> is twelve bytes: a four-byte big-endian count of seconds since the
  epoch, then eight bytes of process-unique value and counter.
  \<open>getTimestamp\<close> builds a \<open>Date\<close> from the seconds, read unsigned, times 1000;
  \<open>getTime\<close> reads the milliseconds back.
\<close>

record ObjectId =
  seconds :: "32 word"
  unique :: "64 word"

datatype Date = Date (getTime: int)

definition getTimestamp :: "ObjectId \<Rightarrow> Date" where
  "getTimestamp oid = Date (uint (seconds oid) * 1000)"

text \<open>
  A tournament document, as \<open>toObject()\<close> shows it.  The name may be missing
  (\<open>None\<close>) or empty; both are falsy in \<open>!prevTournament.name\<close>.
\<close>

record Tournament =
  oid :: ObjectId
  name :: "string option"
  guildID :: string
  active :: bool

type_synonym TournamentDocument = Tournament

record GuildSettings =
  settings_oid :: ObjectId
  settings_guildID :: string

definition falsy_string :: "string option \<Rightarrow> bool" where
  "falsy_string s = (case s of None \<Rightarrow> True | Some v \<Rightarrow> v = [])"

text \<open>
  \<open>Array.prototype.reduce\<close> without an initial value: the first element seeds the
  accumulator and the callback runs on the others from left to right; on an empty
  array it throws a TypeError.
\<close>

fun reduce :: "('a \<Rightarrow> 'a \<Rightarrow> 'a) \<Rightarrow> 'a list \<Rightarrow> 'c error + 'a" where
  "reduce f [] = Inl (TypeError ''Reduce of empty array with no initial value'')"
| "reduce f (x # xs) = Inr (foldl f x xs)"

text \<open>The callback handed to \<open>reduce\<close> (lines 19 to 25).\<close>

definition reducer :: "TournamentDocument \<Rightarrow> TournamentDocument \<Rightarrow> TournamentDocument" where
  "reducer prev curr' =
     (let prevTournament = prev; currTournament = curr' in
      if falsy_string (name prevTournament)
         \<and> getTime (getTimestamp (oid prevTournament)) > getTime (getTimestamp (oid currTournament))
      then prev else curr')"

text \<open>
  \<open>getCurrentTournament\<close>.  The query \<open>TournamentModel.find({ guildID })\<close> belongs to
  the persistence layer and is a parameter: it yields the guild's documents in the
  store's order, or rejects.  A document is an object, hence truthy, so the final
  conditional always takes its first branch when it is reached.
\<close>

definition getCurrentTournament ::
  "(string \<Rightarrow> 'c error + TournamentDocument list) \<Rightarrow> GuildSettings
     \<Rightarrow> 'c error + TournamentDocument option" where
  "getCurrentTournament TournamentModel_find this =
     (case TournamentModel_find (settings_guildID this) of
        Inl err \<Rightarrow> Inl err
      | Inr guildTournaments \<Rightarrow>
          (case reduce reducer (filter active guildTournaments) of
             Inl err \<Rightarrow> Inl err
           | Inr activeTournament \<Rightarrow> Inr (Some activeTournament)))"

section \<open>The profile command: outcomes\<close>

text \<open>
  \<open>OutcomeStatus\<close> is declared in \<open>types/outcome\<close>; the two members this command
  produces are listed.  \<open>ProfileStatus\<close> is the union of the command's own status
  and the generic ones.
\<close>

datatype OutcomeStatus = FAIL_VALIDATION | FAIL_UNKNOWN

datatype ProfileSpecificStatus = SUCCESS_DETAILS

datatype ProfileStatus = Specific ProfileSpecificStatus | Generic OutcomeStatus

record UserDetails =
  details_name :: string
  details_icon :: string

text \<open>
  A body is a JavaScript object; the three object shapes the command builds are the
  three constructors.  Points are JavaScript numbers holding integral scores.
\<close>

datatype 'c Body =
    SuccessDetailsBody (currentPoints: int) (careerPoints: int) (userDetails: UserDetails)
  | EmptyBody
  | ValidationErrorBody 'c string string string

record 'c ProfileOutcome =
  status :: ProfileStatus
  body :: "'c Body"

text \<open>
  The casts \<open>as string\<close> are erased at run time, so a \<open>null\<close> guild id of the
  interaction reaches the parameters unchanged: \<open>guildId\<close> is an option here.
\<close>

record ProfileSolverParams =
  guildId :: "string option"
  memberId :: string

section \<open>The profile command: collaborators\<close>

record User =
  id' :: string
  avatarURL :: "string option"

record GuildMember =
  displayName :: string
  user :: User

text \<open>
  A call hands back a promise, or throws before any promise exists (\<open>Inl\<close>).  A
  promise settles to a value or to a rejection.  When a rejection arrives matters: the
  number with \<open>Rejected\<close> is how many of the caller's \<open>await\<close>s complete, counted from
  the creation of the promise, before the rejection arrives.
\<close>

datatype ('c, 'a) Promise = Resolved 'a | Rejected "'c error" nat

datatype 'c Guild =
  Guild (members_fetch: "string \<Rightarrow> 'c error + ('c, GuildMember) Promise")

datatype 'c Client =
  Client (guilds_fetch: "string option \<Rightarrow> 'c error + ('c, 'c Guild) Promise")

text \<open>Contestant documents are opaque to the command: a handle.\<close>

datatype ContestantDocument = ContestantDocument nat

text \<open>
  The functions imported from the platform client and from the query modules.
  \<open>queries_getCurrentTournament\<close> is \<open>getCurrentTournament\<close> of
  \<open>guildSettingsQueries\<close>, which takes a guild id.
\<close>

record 'c Collaborators =
  getInstance :: "'c error + 'c Client"
  getOrCreateContestant :: "string option \<Rightarrow> string \<Rightarrow> 'c error + ContestantDocument"
  getCareerPointsOfContestant :: "ContestantDocument \<Rightarrow> 'c error + ('c, int) Promise"
  queries_getCurrentTournament :: "string option \<Rightarrow> 'c error + TournamentDocument option"
  getPointsOfContestantForTournament ::
    "ContestantDocument \<Rightarrow> TournamentDocument \<Rightarrow> 'c error + ('c, int) Promise"

text \<open>
  The calls the solver can issue; a run logs them in the order they are issued, each
  with whether it delivered its value (it neither threw nor was rejected).
\<close>

datatype Call =
    GetInstance
  | GuildsFetch "string option"
  | MembersFetch string
  | GetOrCreateContestant "string option" string
  | GetCareerPointsOfContestant ContestantDocument
  | GetCurrentTournament "string option"
  | GetPointsOfContestantForTournament ContestantDocument TournamentDocument

text \<open>
  The state of one run of an \<open>async\<close> function: the calls issued, the number of
  \<open>await\<close>s completed, the number of promises created, and the rejections of promises
  that nobody awaits yet, each with the key of its promise and the count of completed
  \<open>await\<close>s at which it arrives.
\<close>

record 'c Run =
  issued :: "(Call \<times> bool) list"
  awaited :: nat
  created :: nat
  unattended :: "(nat \<times> nat \<times> 'c error) list"

definition start :: "'c Run" where
  "start = \<lparr>issued = [], awaited = 0, created = 0, unattended = []\<rparr>"

text \<open>
  A step of a run yields a value, throws an error that an enclosing \<open>catch\<close> receives,
  or ends in a rejection that has no handler when it arrives: that one reaches no
  \<open>catch\<close>; the run time raises it, and the function returns nothing.
\<close>

datatype ('c, 'a) Step = Value 'a | Thrown "'c error" | Unhandled "'c error"

type_synonym ('c, 'a) Task = "'c Run \<Rightarrow> 'c Run \<times> ('c, 'a) Step"

text \<open>A promise held in a variable: its key and how it settles.\<close>

type_synonym ('c, 'a) Handle = "nat \<times> ('c, 'a) Promise"

definition result :: "'a \<Rightarrow> ('c, 'a) Task" where
  "result x s = (s, Value x)"

definition throw :: "'c error \<Rightarrow> ('c, 'a) Task" where
  "throw err s = (s, Thrown err)"

definition and_then :: "('c, 'a) Task \<Rightarrow> ('a \<Rightarrow> ('c, 'b) Task) \<Rightarrow> ('c, 'b) Task" where
  "and_then m k s =
     (case m s of
        (s', Value x) \<Rightarrow> k x s'
      | (s', Thrown err) \<Rightarrow> (s', Thrown err)
      | (s', Unhandled err) \<Rightarrow> (s', Unhandled err))"

definition issue :: "Call \<Rightarrow> bool \<Rightarrow> ('c, unit) Task" where
  "issue c delivered s = (s\<lparr>issued := issued s @ [(c, delivered)]\<rparr>, Value ())"

text \<open>
  The function is suspended in an \<open>await\<close>.  A rejection that is due and still
  unattended arrives now and is unhandled; otherwise the \<open>await\<close> completes.
\<close>

definition suspend :: "('c, unit) Task" where
  "suspend s =
     (case filter (\<lambda>(key, due, err). due \<le> awaited s) (unattended s) of
        [] \<Rightarrow> (s\<lparr>awaited := awaited s + 1\<rparr>, Value ())
      | (key, due, err) # others \<Rightarrow> (s, Unhandled err))"

text \<open>A promise comes into being; a rejection it will deliver is unattended for now.\<close>

definition new_promise :: "('c, 'a) Promise \<Rightarrow> ('c, ('c, 'a) Handle) Task" where
  "new_promise p s =
     (s\<lparr>created := created s + 1,
        unattended := unattended s @
          (case p of Resolved x \<Rightarrow> [] | Rejected err n \<Rightarrow> [(created s, awaited s + n, err)])\<rparr>,
      Value (created s, p))"

text \<open>
  \<open>await\<close> on a promise held in a variable: from now on the promise has a handler, the
  function is suspended, and then the value is delivered or the rejection thrown.
\<close>

definition await :: "('c, 'a) Handle \<Rightarrow> ('c, 'a) Task" where
  "await h s =
     (case h of (key, p) \<Rightarrow>
        and_then suspend
          (\<lambda>u. case p of Resolved x \<Rightarrow> result x | Rejected err n \<Rightarrow> throw err)
          (s\<lparr>unattended := filter (\<lambda>(k, due, err). k \<noteq> key) (unattended s)\<rparr>))"

text \<open>
  A call whose result is awaited where it is made: \<open>await f(x)\<close>.  \<open>Inl\<close> is a
  failure of the call, thrown at this \<open>await\<close>.
\<close>

definition external :: "Call \<Rightarrow> 'c error + 'a \<Rightarrow> ('c, 'a) Task" where
  "external c r =
     and_then (issue c (case r of Inl err \<Rightarrow> False | Inr x \<Rightarrow> True)) (\<lambda>u.
     and_then suspend (\<lambda>u.
     case r of Inl err \<Rightarrow> throw err | Inr x \<Rightarrow> result x))"

text \<open>A call whose promise is kept in a variable and awaited later.\<close>

definition external_promise ::
  "Call \<Rightarrow> 'c error + ('c, 'a) Promise \<Rightarrow> ('c, ('c, 'a) Handle) Task" where
  "external_promise c r =
     and_then (issue c (case r of Inl err \<Rightarrow> False | Inr (Resolved x) \<Rightarrow> True
                                 | Inr (Rejected err n) \<Rightarrow> False)) (\<lambda>u.
     case r of Inl err \<Rightarrow> throw err | Inr p \<Rightarrow> new_promise p)"

text \<open>
  What a caller sees of a finished run: the calls issued, and the outcome returned
  (\<open>Inr\<close>) or the error that left the function (\<open>Inl\<close>).
\<close>

type_synonym ('c, 'a) Async = "(Call \<times> bool) list \<times> ('c error + 'a)"


definition outcome_of :: "('c, 'a) Async \<Rightarrow> 'c error + 'a" where
  "outcome_of m = snd m"

section \<open>The profile command: solver\<close>

definition default_icon :: string where
  "default_icon = ''https://static.wikia.nocookie.net/minecraft_gamepedia/images/0/02/Pointer_%28texture%29_JE1_BE1.png''"

text \<open>
  The body of the \<open>try\<close> block (lines 95 to 115), statement by statement.  The promises
  \<open>member\<close> (line 96) and \<open>careerPoints\<close> (line 99) are awaited only while the body of
  the outcome is built (lines 108 to 112); \<open>guild\<close> and \<open>currentPoints\<close> are awaited
  before any other \<open>await\<close>.
\<close>

definition profileSolver_try ::
  "'c Collaborators \<Rightarrow> ProfileSolverParams \<Rightarrow> ('c, 'c ProfileOutcome) Task" where
  "profileSolver_try env params =
     and_then (external GetInstance (getInstance env)) (\<lambda>client.
     and_then (external_promise (GuildsFetch (guildId params))
                 (guilds_fetch client (guildId params))) (\<lambda>guild.
     and_then (await guild) (\<lambda>guild'.
     and_then (external_promise (MembersFetch (memberId params))
                 (members_fetch guild' (memberId params))) (\<lambda>member.
     and_then (external (GetOrCreateContestant (guildId params) (memberId params))
                 (getOrCreateContestant env (guildId params) (memberId params))) (\<lambda>contestant.
     and_then (external_promise (GetCareerPointsOfContestant contestant)
                 (getCareerPointsOfContestant env contestant)) (\<lambda>careerPoints.
     and_then (external (GetCurrentTournament (guildId params))
                 (queries_getCurrentTournament env (guildId params))) (\<lambda>currentTournament.
     and_then (case currentTournament of
                 None \<Rightarrow> new_promise (Resolved (- 1))
               | Some tournament \<Rightarrow>
                   external_promise (GetPointsOfContestantForTournament contestant tournament)
                     (getPointsOfContestantForTournament env contestant tournament)) (\<lambda>currentPoints.
     and_then (await currentPoints) (\<lambda>currentPoints'.
     and_then (await careerPoints) (\<lambda>careerPoints'.
     and_then (await member) (\<lambda>member'.
     and_then (await member) (\<lambda>member''.
     result \<lparr>status = Specific SUCCESS_DETAILS,
             body = SuccessDetailsBody currentPoints' careerPoints'
                      \<lparr>details_name = displayName member',
                       details_icon = (case avatarURL (user member'') of
                                         Some url \<Rightarrow> url | None \<Rightarrow> default_icon)\<rparr>\<rparr>))))))))))))"

text \<open>
  \<open>profileSolver\<close>: the \<open>try\<close> block, the empty \<open>catch\<close>, and the final return.  A
  thrown error is caught and the unknown failure returned.  An unhandled rejection is
  not a thrown error of the block: it leaves the function (\<open>Inl\<close>) and no outcome is
  returned.  Rejections still unattended when the function returns are not part of
  what it returns.
\<close>

definition profileSolver ::
  "'c Collaborators \<Rightarrow> ProfileSolverParams \<Rightarrow> ('c, 'c ProfileOutcome) Async" where
  "profileSolver env params =
     (case profileSolver_try env params start of
        (s, Value outcome) \<Rightarrow> (issued s, Inr outcome)
      | (s, Thrown err) \<Rightarrow> (issued s, Inr \<lparr>status = Generic FAIL_UNKNOWN, body = EmptyBody\<rparr>)
      | (s, Unhandled err) \<Rightarrow> (issued s, Inl err))"

section \<open>The profile command: validator\<close>

record CommandInteractionOption =
  option_name :: string
  option_user :: "User option"

text \<open>
  The fields of the interaction the validator reads.  \<open>guildId\<close> and \<open>member\<close> are
  \<open>null\<close> outside a guild; the source casts the one and asserts the other (\<open>member!\<close>),
  neither of which checks anything at run time.
\<close>

record LimitedCommandInteraction =
  interaction_guildId :: "string option"
  member :: "GuildMember option"
  options :: "CommandInteractionOption list"

text \<open>
  \<open>options.get(name, required)\<close> of the platform's option resolver: the first option
  of that name, \<open>null\<close> when there is none and it is not required.
\<close>

definition options_get ::
  "CommandInteractionOption list \<Rightarrow> string \<Rightarrow> bool \<Rightarrow> 'c error + CommandInteractionOption option" where
  "options_get opts n required =
     (case find (\<lambda>opt. option_name opt = n) opts of
        None \<Rightarrow> if required then Inl (TypeError ''Required option not found'') else Inr None
      | Some opt \<Rightarrow> Inr (Some opt))"

text \<open>Keys of the option-constraint map.\<close>

datatype OptionKey =
    OnOption CommandInteractionOption
  | OnNull
  | ALWAYS_OPTION_CONSTRAINT

text \<open>
  \<open>validateConstraints\<close> lives in \<open>architecture/validation\<close> and is a parameter of the
  validator: given the interaction and the two constraint maps it returns normally or
  throws.
\<close>

type_synonym 'c validateConstraints =
  "LimitedCommandInteraction \<Rightarrow> (string \<times> 'c list) list \<Rightarrow> (OptionKey \<times> 'c list) list
     \<Rightarrow> 'c error + unit"

datatype 'c ValidatorResult =
    SolverParams ProfileSolverParams
  | ValidationErrorOutcome "'c ProfileOutcome"

text \<open>The expression \<open>interaction.options.get('user', false)?.user?.id\<close>.\<close>

definition user_option_id :: "LimitedCommandInteraction \<Rightarrow> 'c error + string option" where
  "user_option_id interaction =
     (case options_get (options interaction) ''user'' False of
        Inl err \<Rightarrow> Inl err
      | Inr None \<Rightarrow> Inr None
      | Inr (Some opt) \<Rightarrow>
          (case option_user opt of None \<Rightarrow> Inr None | Some u \<Rightarrow> Inr (Some (id' u))))"

definition profileSlashCommandValidator ::
  "'c validateConstraints \<Rightarrow> LimitedCommandInteraction \<Rightarrow> 'c error + 'c ValidatorResult" where
  "profileSlashCommandValidator validateConstraints interaction =
     (let metadataConstraints = []; optionConstraints = [] in
      case validateConstraints interaction metadataConstraints optionConstraints of
        Inl err \<Rightarrow>
          (case err of
             OptionValidationError c f v message \<Rightarrow>
               Inr (ValidationErrorOutcome
                      \<lparr>status = Generic FAIL_VALIDATION, body = ValidationErrorBody c f v message\<rparr>)
           | TypeError m \<Rightarrow> Inl err
           | Error m \<Rightarrow> Inl err)
      | Inr u \<Rightarrow>
          (case user_option_id interaction of
             Inl err \<Rightarrow> Inl err
           | Inr (Some uid) \<Rightarrow>
               Inr (SolverParams \<lparr>guildId = interaction_guildId interaction, memberId = uid\<rparr>)
           | Inr None \<Rightarrow>
               (case member interaction of
                  None \<Rightarrow> Inl (TypeError ''Cannot read properties of null (reading user)'')
                | Some m \<Rightarrow>
                    Inr (SolverParams \<lparr>guildId = interaction_guildId interaction,
                                       memberId = id' (user m)\<rparr>))))"

section \<open>The profile command: descriptions\<close>

record APIEmbed =
  title :: string
  description :: string
  thumbnail :: string

record SlashCommandEmbedDescribedOutcome =
  embeds :: "APIEmbed list"
  ephemeral :: bool

text \<open>A number in a template literal: its decimal digits, with a sign when negative.\<close>

definition digit :: "nat \<Rightarrow> char" where
  "digit d = ''0123456789'' ! d"

fun digits :: "nat \<Rightarrow> string" where
  "digits n = (if n < 10 then [digit n] else digits (n div 10) @ [digit (n mod 10)])"

declare digits.simps [simp del]

definition numberToString :: "int \<Rightarrow> string" where
  "numberToString n = (if n < 0 then CHR ''-'' # digits (nat (- n)) else digits (nat n))"

text \<open>
  The renderer registered for \<open>SUCCESS_DETAILS\<close>.  The cast to
  \<open>ProfileSuccessDetailsOutcome\<close> checks nothing: on a body that has no
  \<open>userDetails\<close> the first read, \<open>oBody.userDetails.name\<close>, throws.
\<close>

definition describe_SUCCESS_DETAILS ::
  "'c ProfileOutcome \<Rightarrow> 'c error + SlashCommandEmbedDescribedOutcome" where
  "describe_SUCCESS_DETAILS outcome =
     (case body outcome of
        SuccessDetailsBody current career details \<Rightarrow>
          Inr \<lparr>embeds =
                 [\<lparr>title = details_name details @ CHR 0x27 # ''s Profile'',
                   description = ''**Current Points:** '' @ numberToString current
                                   @ CHR 0x0A # ''**Career Points:** '' @ numberToString career,
                   thumbnail = details_icon details\<rparr>],
               ephemeral = True\<rparr>
      | EmptyBody \<Rightarrow> Inl (TypeError ''Cannot read properties of undefined (reading name)'')
      | ValidationErrorBody c f v m \<Rightarrow>
          Inl (TypeError ''Cannot read properties of undefined (reading name)''))"

definition profileSlashCommandDescriptions ::
  "ProfileStatus \<rightharpoonup> ('c ProfileOutcome \<Rightarrow> 'c error + SlashCommandEmbedDescribedOutcome)" where
  "profileSlashCommandDescriptions = [Specific SUCCESS_DETAILS \<mapsto> describe_SUCCESS_DETAILS]"

section \<open>Specification-level notions\<close>

text \<open>
  The selection rule in the specification's words, to be compared with \<open>reducer\<close> and
  \<open>reduce\<close>: the creation time of a record is the time held in its identifier; prev is
  kept when its name is empty or missing and its creation time is strictly greater
  than curr's, otherwise curr is taken; the records are combined pairwise from the
  left.
\<close>

definition creation_time :: "Tournament \<Rightarrow> nat" where
  "creation_time t = unat (seconds (oid t))"

definition unnamed :: "Tournament \<Rightarrow> bool" where
  "unnamed t = (name t = None \<or> name t = Some [])"

definition spec_choose :: "Tournament \<Rightarrow> Tournament \<Rightarrow> Tournament" where
  "spec_choose prev curr' =
     (if unnamed prev \<and> creation_time prev > creation_time curr' then prev else curr')"

fun spec_pairwise :: "Tournament list \<Rightarrow> Tournament option" where
  "spec_pairwise [] = None"
| "spec_pairwise [t] = Some t"
| "spec_pairwise (prev # curr' # rest) = spec_pairwise (spec_choose prev curr' # rest)"

text \<open>
  The outcome invariant: the shape of body that each status declares
  (\<open>ProfileSuccessDetailsOutcome\<close> for \<open>SUCCESS_DETAILS\<close>; for the generic statuses the
  empty body of an unknown failure and the constraint, field, value and context of a
  validation failure), and the shape a body has.
\<close>

datatype BodyShape = DetailsShape | EmptyShape | ValidationShape

fun declared_shape :: "ProfileStatus \<Rightarrow> BodyShape" where
  "declared_shape (Specific SUCCESS_DETAILS) = DetailsShape"
| "declared_shape (Generic FAIL_UNKNOWN) = EmptyShape"
| "declared_shape (Generic FAIL_VALIDATION) = ValidationShape"

fun shape_of :: "'c Body \<Rightarrow> BodyShape" where
  "shape_of (SuccessDetailsBody current career details) = DetailsShape"
| "shape_of EmptyBody = EmptyShape"
| "shape_of (ValidationErrorBody c f v m) = ValidationShape"

definition well_shaped :: "'c ProfileOutcome \<Rightarrow> bool" where
  "well_shaped outcome = (shape_of (body outcome) = declared_shape (status outcome))"


section \<open>Sample values\<close>

text \<open>A member without an avatar, a guild and a client that find it, and the queries.\<close>

definition example_member :: GuildMember where
  "example_member = \<lparr>displayName = ''Ada'', user = \<lparr>id' = ''42'', avatarURL = None\<rparr>\<rparr>"

definition example_guild :: "nat Guild" where
  "example_guild = Guild (\<lambda>m. Inr (Resolved example_member))"

definition example_env :: "nat Collaborators" where
  "example_env =
     \<lparr>getInstance = Inr (Client (\<lambda>g. Inr (Resolved example_guild))),
      getOrCreateContestant = (\<lambda>g m. Inr (ContestantDocument 0)),
      getCareerPointsOfContestant = (\<lambda>c. Inr (Resolved 7)),
      queries_getCurrentTournament = (\<lambda>g. Inr None),
      getPointsOfContestantForTournament = (\<lambda>c t. Inr (Resolved 3))\<rparr>"

definition example_env_failing :: "nat Collaborators" where
  "example_env_failing = example_env\<lparr>getOrCreateContestant := (\<lambda>g m. Inl (Error ''store unreachable''))\<rparr>"

definition example_params :: ProfileSolverParams where
  "example_params = \<lparr>guildId = Some ''g1'', memberId = ''42''\<rparr>"

definition example_interaction :: LimitedCommandInteraction where
  "example_interaction = \<lparr>interaction_guildId = Some ''g1'', member = Some example_member, options = []\<rparr>"


definition example_validation_error :: "nat error" where
  "example_validation_error = OptionValidationError 5 ''user'' ''nobody'' ''The user must be a member of this server.''"

text \<open>Four tournaments of one guild; the one created last is inactive.\<close>

definition t_unnamed_new :: Tournament where
  "t_unnamed_new = \<lparr>oid = \<lparr>seconds = 300, unique = 1\<rparr>, name = Some [], guildID = ''g1'', active = True\<rparr>"

definition t_named_old :: Tournament where
  "t_named_old = \<lparr>oid = \<lparr>seconds = 100, unique = 2\<rparr>, name = Some ''Spring Cup'', guildID = ''g1'', active = True\<rparr>"

definition t_named_mid :: Tournament where
  "t_named_mid = \<lparr>oid = \<lparr>seconds = 200, unique = 3\<rparr>, name = Some ''Summer Cup'', guildID = ''g1'', active = True\<rparr>"

definition t_inactive :: Tournament where
  "t_inactive = \<lparr>oid = \<lparr>seconds = 400, unique = 4\<rparr>, name = Some ''Winter Cup'', guildID = ''g1'', active = False\<rparr>"

definition example_settings :: GuildSettings where
  "example_settings = \<lparr>settings_oid = \<lparr>seconds = 50, unique = 0\<rparr>, settings_guildID = ''g1''\<rparr>"

section \<open>Laws of the computations\<close>

lemmas example_tournaments = t_unnamed_new_def t_named_old_def t_named_mid_def t_inactive_def
  example_settings_def

lemmas task_defs = and_then_def external_def external_promise_def issue_def suspend_def
  new_promise_def await_def result_def throw_def start_def

lemma and_then_Value:
  "and_then m k s = (s', Value y) \<Longrightarrow> \<exists>x s''. m s = (s'', Value x) \<and> k x s'' = (s', Value y)"
  by (auto simp add: and_then_def split: prod.splits Step.splits)














text \<open>The guarded block of the solver.\<close>

lemma try_success_shape:
  "profileSolver_try env params s = (s', Value out) \<Longrightarrow>
     status out = Specific SUCCESS_DETAILS \<and> shape_of (body out) = DetailsShape"
  unfolding profileSolver_try_def
  by (auto dest!: and_then_Value simp add: result_def)




lemma outcome_of_profileSolver:
  "outcome_of (profileSolver env params) =
     (case snd (profileSolver_try env params start) of
        Value outcome \<Rightarrow> Inr outcome
      | Thrown err \<Rightarrow> Inr \<lparr>status = Generic FAIL_UNKNOWN, body = EmptyBody\<rparr>
      | Unhandled err \<Rightarrow> Inl err)"
  by (simp add: profileSolver_def outcome_of_def split: prod.splits Step.splits)

lemma profileSolver_outcomes:
  assumes "outcome_of (profileSolver env params) = Inr out"
  shows "status out = Specific SUCCESS_DETAILS \<and> shape_of (body out) = DetailsShape
         \<or> out = \<lparr>status = Generic FAIL_UNKNOWN, body = EmptyBody\<rparr>"
proof (cases "profileSolver_try env params start")
  case (Pair s' r)
  with assms try_success_shape [of env params start s'] show ?thesis
    by (cases r) (auto simp add: outcome_of_profileSolver)
qed



text \<open>
  A member fetch whose rejection arrives before the contestant lookup completes: the
  promise \<open>member\<close> has no handler yet, and the rejection leaves the function.
\<close>

lemma early_member_rejection_unhandled:
  assumes "getInstance env = Inr client"
    and "guilds_fetch client (guildId params) = Inr (Resolved guild)"
    and "members_fetch guild (memberId params) = Inr (Rejected err 0)"
  shows "outcome_of (profileSolver env params) = Inl err"
  using assms
  by (simp add: outcome_of_profileSolver profileSolver_try_def task_defs)

text \<open>
  The sample runs, evaluated: all calls deliver; the contestant lookup fails and is
  caught; the member fetch is rejected when \<open>member\<close> is being awaited and is caught.
\<close>

lemma example_profileSolver:
  "profileSolver example_env example_params =
     ([(GetInstance, True), (GuildsFetch (Some ''g1''), True), (MembersFetch ''42'', True),
       (GetOrCreateContestant (Some ''g1'') ''42'', True),
       (GetCareerPointsOfContestant (ContestantDocument 0), True),
       (GetCurrentTournament (Some ''g1''), True)],
      Inr \<lparr>status = Specific SUCCESS_DETAILS,
           body = SuccessDetailsBody (- 1) 7 \<lparr>details_name = ''Ada'', details_icon = default_icon\<rparr>\<rparr>)"
  by (simp add: profileSolver_def profileSolver_try_def example_env_def example_params_def
      example_guild_def example_member_def task_defs)

lemma example_profileSolver_outcome:
  "outcome_of (profileSolver example_env example_params) =
     Inr \<lparr>status = Specific SUCCESS_DETAILS,
          body = SuccessDetailsBody (- 1) 7 \<lparr>details_name = ''Ada'', details_icon = default_icon\<rparr>\<rparr>"
  by (simp add: example_profileSolver outcome_of_def)

lemma example_profileSolver_caught:
  "profileSolver example_env_failing example_params =
     ([(GetInstance, True), (GuildsFetch (Some ''g1''), True), (MembersFetch ''42'', True),
       (GetOrCreateContestant (Some ''g1'') ''42'', False)],
      Inr \<lparr>status = Generic FAIL_UNKNOWN, body = EmptyBody\<rparr>)"
  by (simp add: profileSolver_def profileSolver_try_def example_env_failing_def example_env_def
      example_params_def example_guild_def example_member_def task_defs)

lemma example_member_rejection_awaited:
  "profileSolver
     (example_env\<lparr>getInstance := Inr (Client (\<lambda>g. Inr (Resolved (Guild (\<lambda>m.
        Inr (Rejected (Error ''Unknown Member'') 4))))))\<rparr>)
     \<lparr>guildId = Some ''g1'', memberId = ''43''\<rparr>
   = ([(GetInstance, True), (GuildsFetch (Some ''g1''), True), (MembersFetch ''43'', False),
       (GetOrCreateContestant (Some ''g1'') ''43'', True),
       (GetCareerPointsOfContestant (ContestantDocument 0), True),
       (GetCurrentTournament (Some ''g1''), True)],
      Inr \<lparr>status = Generic FAIL_UNKNOWN, body = EmptyBody\<rparr>)"
  by (simp add: profileSolver_def profileSolver_try_def example_env_def task_defs)

lemma example_validator_failure:
  "profileSlashCommandValidator (\<lambda>i m opts. Inl example_validation_error) example_interaction =
     Inr (ValidationErrorOutcome
            \<lparr>status = Generic FAIL_VALIDATION,
             body = ValidationErrorBody 5 ''user'' ''nobody'' ''The user must be a member of this server.''\<rparr>)"
  by (simp add: profileSlashCommandValidator_def example_validation_error_def)

lemma example_describe:
  "describe_SUCCESS_DETAILS
     \<lparr>status = Specific SUCCESS_DETAILS,
      body = SuccessDetailsBody (- 1) 7 \<lparr>details_name = ''Ada'', details_icon = default_icon\<rparr>\<rparr>
   = Inr \<lparr>embeds = [\<lparr>title = ''Ada'' @ [CHR 0x27] @ ''s Profile'',
                      description = ''**Current Points:** -1'' @ [CHR 0x0A] @ ''**Career Points:** 7'',
                      thumbnail = default_icon\<rparr>],
          ephemeral = True\<rparr>"
  by (simp add: describe_SUCCESS_DETAILS_def numberToString_def digits.simps digit_def bit_0)

text \<open>The reduction callback is the rule of the specification, and folds from the left.\<close>

lemma getTime_greater_iff:
  "getTime (getTimestamp a) > getTime (getTimestamp b) \<longleftrightarrow> unat (seconds a) > unat (seconds b)"
proof -
  have "uint (seconds b) < uint (seconds a) \<longleftrightarrow> unat (seconds b) < unat (seconds a)"
    by (simp only: word_less_def [symmetric] word_less_nat_alt [symmetric])
  moreover have "uint (seconds b) * 1000 < uint (seconds a) * 1000
                   \<longleftrightarrow> uint (seconds b) < uint (seconds a)"
    by simp
  ultimately show ?thesis
    by (simp only: getTimestamp_def Date.sel)
qed

lemma falsy_string_unnamed: "falsy_string (name t) = unnamed t"
  by (cases "name t") (simp_all add: falsy_string_def unnamed_def)

lemma reducer_spec_choose: "reducer prev c = spec_choose prev c"
  by (simp add: reducer_def spec_choose_def falsy_string_unnamed creation_time_def
      getTime_greater_iff del: Date.sel)

lemma spec_pairwise_foldl: "spec_pairwise (x # xs) = Some (foldl reducer x xs)"
  by (induction xs arbitrary: x) (simp_all add: reducer_spec_choose)

section \<open>Tournament selection\<close>

text \<open>
  Whenever the query succeeds and no record of the guild is flagged active, the
  reduction runs on an empty array and the method throws.
\<close>

lemma getCurrentTournament_no_active:
  assumes "TournamentModel_find (settings_guildID this) = Inr guildTournaments"
    and "filter active guildTournaments = []"
  shows "getCurrentTournament TournamentModel_find this
           = Inl (TypeError ''Reduce of empty array with no initial value'')"
  using assms by (simp add: getCurrentTournament_def)

text \<open>
  C1 states that for a guild none of whose tournament records is active, also a guild
  with no records at all, \<open>getCurrentTournament\<close> returns \<open>null\<close> and raises nothing.
  The method's return type and its last line provide for \<open>null\<close>, but
  \<open>reduce\<close> is called without an initial value: on a guild with no records the
  method throws a TypeError instead.
\<close>

theorem getCurrentTournament_no_records_throws:
  "getCurrentTournament (\<lambda>guild. Inr [])
      \<lparr>settings_oid = \<lparr>seconds = 0x65000000, unique = 1\<rparr>, settings_guildID = ''g1''\<rparr>
   = (Inl (TypeError ''Reduce of empty array with no initial value'')
        :: nat error + TournamentDocument option)"
  by (simp add: getCurrentTournament_def)

text \<open>
  C3. With two or more active records, \<open>getCurrentTournament\<close> combines them pairwise
  from left to right, and each comparison keeps prev exactly when prev's name is empty
  or missing and prev's creation time is strictly greater than curr's; otherwise it
  takes curr.
\<close>

theorem getCurrentTournament_pairwise:
  assumes "TournamentModel_find (settings_guildID this) = Inr guildTournaments"
    and "2 \<le> length (filter active guildTournaments)"
  shows "getCurrentTournament TournamentModel_find this
           = Inr (spec_pairwise (filter active guildTournaments))
         \<and> (\<forall>prev curr'. reducer prev curr' = spec_choose prev curr')"
proof -
  obtain x xs where "filter active guildTournaments = x # xs"
    using assms(2) by (cases "filter active guildTournaments") auto
  then show ?thesis using assms(1)
    by (simp add: getCurrentTournament_def spec_pairwise_foldl reducer_spec_choose)
qed

theorem getCurrentTournament_pairwise_witness:
  "getCurrentTournament (\<lambda>guild. Inr [t_named_old, t_inactive, t_unnamed_new, t_named_mid]) example_settings
     = (Inr (Some t_unnamed_new) :: nat error + TournamentDocument option)"
proof -
  let ?find = "\<lambda>guild :: string. (Inr [t_named_old, t_inactive, t_unnamed_new, t_named_mid]
                 :: nat error + TournamentDocument list)"
  have records: "?find (settings_guildID example_settings)
                   = Inr [t_named_old, t_inactive, t_unnamed_new, t_named_mid]"
    by simp
  have active: "filter active [t_named_old, t_inactive, t_unnamed_new, t_named_mid]
                  = [t_named_old, t_unnamed_new, t_named_mid]"
    by (simp add: example_tournaments)
  have several: "2 \<le> length (filter active [t_named_old, t_inactive, t_unnamed_new, t_named_mid])"
    unfolding active by simp
  have chosen: "spec_pairwise [t_named_old, t_unnamed_new, t_named_mid] = Some t_unnamed_new"
    by (simp add: example_tournaments spec_choose_def unnamed_def creation_time_def)
  from getCurrentTournament_pairwise [OF records several]
  have "getCurrentTournament ?find example_settings
          = Inr (spec_pairwise (filter active [t_named_old, t_inactive, t_unnamed_new, t_named_mid]))"
    by (rule conjunct1)
  then show ?thesis
    unfolding active chosen .
qed

text \<open>
  C4, as claimed: a record with an empty or missing name never wins a comparison
  against a record that has a name.  It does: an unnamed prev created later than a
  named curr is kept.
\<close>

theorem unnamed_wins_counterexample:
  "reducer
     \<lparr>oid = \<lparr>seconds = 300, unique = 1\<rparr>, name = Some [], guildID = ''g1'', active = True\<rparr>
     \<lparr>oid = \<lparr>seconds = 100, unique = 2\<rparr>, name = Some ''Spring Cup'', guildID = ''g1'',
      active = True\<rparr>
   = \<lparr>oid = \<lparr>seconds = 300, unique = 1\<rparr>, name = Some [], guildID = ''g1'', active = True\<rparr>"
  by (simp add: reducer_def falsy_string_def getTimestamp_def)

text \<open>
  C4, amended: in a comparison between an unnamed and a named record, an unnamed prev
  wins exactly when its creation time is strictly greater than curr's, and an unnamed
  curr always wins; the named record wins only as curr, against an unnamed prev that is
  not strictly newer.
\<close>

theorem reducer_unnamed_against_named:
  "(unnamed prev \<and> \<not> unnamed curr' \<longrightarrow>
      reducer prev curr' = (if creation_time prev > creation_time curr' then prev else curr'))
   \<and> (\<not> unnamed prev \<and> unnamed curr' \<longrightarrow> reducer prev curr' = curr')"
  by (simp add: reducer_spec_choose spec_choose_def)

theorem reducer_unnamed_against_named_witness:
  "reducer t_unnamed_new t_named_old = t_unnamed_new
   \<and> reducer (t_unnamed_new\<lparr>oid := \<lparr>seconds = 100, unique = 1\<rparr>\<rparr>) t_named_mid = t_named_mid
   \<and> reducer t_named_mid t_unnamed_new = t_unnamed_new"
  using reducer_unnamed_against_named [of t_unnamed_new t_named_old]
    reducer_unnamed_against_named [of "t_unnamed_new\<lparr>oid := \<lparr>seconds = 100, unique = 1\<rparr>\<rparr>" t_named_mid]
    reducer_unnamed_against_named [of t_named_mid t_unnamed_new]
  by (simp add: example_tournaments unnamed_def creation_time_def)

text \<open>
  C5, as claimed: of exactly two active, named records with distinct creation times
  the later-created one is returned, whatever the order of the store.  When the store
  lists the later-created record first, the earlier-created one is returned.
\<close>

theorem later_created_counterexample:
  "getCurrentTournament
     (\<lambda>guild. Inr
        [\<lparr>oid = \<lparr>seconds = 200, unique = 3\<rparr>, name = Some ''Summer Cup'', guildID = ''g1'',
          active = True\<rparr>,
         \<lparr>oid = \<lparr>seconds = 100, unique = 2\<rparr>, name = Some ''Spring Cup'', guildID = ''g1'',
          active = True\<rparr>])
     \<lparr>settings_oid = \<lparr>seconds = 50, unique = 0\<rparr>, settings_guildID = ''g1''\<rparr>
   = (Inr (Some \<lparr>oid = \<lparr>seconds = 100, unique = 2\<rparr>, name = Some ''Spring Cup'',
                 guildID = ''g1'', active = True\<rparr>)
        :: nat error + TournamentDocument option)"
  by (simp add: getCurrentTournament_def reducer_def falsy_string_def getTimestamp_def)

text \<open>
  C5, amended: of exactly two active records that both have a non-empty name,
  \<open>getCurrentTournament\<close> returns the one the store lists second, whatever their
  creation times.
\<close>

theorem two_named_last_listed:
  assumes "TournamentModel_find (settings_guildID this) = Inr guildTournaments"
    and "filter active guildTournaments = [first, second]"
    and "\<not> unnamed first" and "\<not> unnamed second"
  shows "getCurrentTournament TournamentModel_find this = Inr (Some second)"
  using assms by (simp add: getCurrentTournament_def reducer_spec_choose spec_choose_def)

theorem two_named_last_listed_witness:
  "getCurrentTournament (\<lambda>guild. Inr [t_named_mid, t_inactive, t_named_old]) example_settings
     = (Inr (Some t_named_old) :: nat error + TournamentDocument option)
   \<and> getCurrentTournament (\<lambda>guild. Inr [t_named_old, t_inactive, t_named_mid]) example_settings
     = (Inr (Some t_named_mid) :: nat error + TournamentDocument option)"
  using two_named_last_listed
      [of "\<lambda>guild. Inr [t_named_mid, t_inactive, t_named_old]" example_settings
        "[t_named_mid, t_inactive, t_named_old]" t_named_mid t_named_old]
    two_named_last_listed
      [of "\<lambda>guild. Inr [t_named_old, t_inactive, t_named_mid]" example_settings
        "[t_named_old, t_inactive, t_named_mid]" t_named_old t_named_mid]
  by (simp add: example_tournaments unnamed_def)

section \<open>The solver\<close>

text \<open>
  C2 states that whatever its collaborators throw, \<open>profileSolver\<close> returns an outcome
  (the unknown failure with an empty body, or the details on success) and lets no
  exception escape.  The \<open>try\<close> block catches what is thrown at an \<open>await\<close>; but the
  promise of the member fetch is awaited only after four other \<open>await\<close>s.  When the
  fetch is rejected while the solver waits for the contestant lookup, the rejection has
  no handler: it escapes, and the solver returns no outcome.
\<close>

theorem profileSolver_member_rejection_escapes:
  "profileSolver
     (example_env\<lparr>getInstance := Inr (Client (\<lambda>g. Inr (Resolved (Guild (\<lambda>m.
        Inr (Rejected (Error ''Unknown Member'') 0))))))\<rparr>)
     \<lparr>guildId = Some ''g1'', memberId = ''43''\<rparr>
   = ([(GetInstance, True), (GuildsFetch (Some ''g1''), True), (MembersFetch ''43'', False),
       (GetOrCreateContestant (Some ''g1'') ''43'', True)],
      Inl (Error ''Unknown Member''))"
  by (simp add: profileSolver_def profileSolver_try_def example_env_def task_defs)

text \<open>
  C10. When the current-tournament lookup yields \<open>null\<close> and every other call
  succeeds, \<open>profileSolver\<close> returns \<open>SUCCESS_DETAILS\<close> with \<open>currentPoints = -1\<close> and
  the career points the query delivered.
\<close>

theorem profileSolver_no_tournament:
  assumes "getInstance env = Inr client"
    and "guilds_fetch client (guildId params) = Inr (Resolved guild)"
    and "members_fetch guild (memberId params) = Inr (Resolved m)"
    and "getOrCreateContestant env (guildId params) (memberId params) = Inr contestant"
    and "getCareerPointsOfContestant env contestant = Inr (Resolved career)"
    and "queries_getCurrentTournament env (guildId params) = Inr None"
  shows "outcome_of (profileSolver env params) =
           Inr \<lparr>status = Specific SUCCESS_DETAILS,
                body = SuccessDetailsBody (- 1) career
                         \<lparr>details_name = displayName m,
                          details_icon = (case avatarURL (user m) of
                                            Some url \<Rightarrow> url | None \<Rightarrow> default_icon)\<rparr>\<rparr>"
  using assms
  by (simp add: outcome_of_profileSolver profileSolver_try_def task_defs)

theorem profileSolver_no_tournament_witness:
  "outcome_of (profileSolver example_env example_params) =
     Inr \<lparr>status = Specific SUCCESS_DETAILS,
          body = SuccessDetailsBody (- 1) 7 \<lparr>details_name = ''Ada'', details_icon = default_icon\<rparr>\<rparr>"
  using profileSolver_no_tournament [of example_env "Client (\<lambda>g. Inr (Resolved example_guild))"
      example_params example_guild example_member "ContestantDocument 0" 7]
  by (simp add: example_env_def example_guild_def example_member_def)

section \<open>The validator\<close>

text \<open>
  C6. When constraint validation throws an \<open>OptionValidationError\<close>, the validator
  returns (and does not throw) an outcome of status \<open>FAIL_VALIDATION\<close> whose body holds
  that error's constraint, field, value and message.
\<close>

theorem validator_validation_failure:
  assumes "validateConstraints interaction [] [] = Inl (OptionValidationError c f v message)"
  shows "profileSlashCommandValidator validateConstraints interaction =
           Inr (ValidationErrorOutcome
                  \<lparr>status = Generic FAIL_VALIDATION, body = ValidationErrorBody c f v message\<rparr>)"
  using assms by (simp add: profileSlashCommandValidator_def)

theorem validator_validation_failure_witness:
  "profileSlashCommandValidator (\<lambda>i m opts. Inl example_validation_error) example_interaction =
     Inr (ValidationErrorOutcome
            \<lparr>status = Generic FAIL_VALIDATION,
             body = ValidationErrorBody 5 ''user'' ''nobody'' ''The user must be a member of this server.''\<rparr>)"
  using validator_validation_failure [of "\<lambda>i m opts. Inl example_validation_error" example_interaction
      5 "''user''" "''nobody''" "''The user must be a member of this server.''"]
  by (simp add: example_validation_error_def)

text \<open>
  C8. When constraint validation throws anything that is not an
  \<open>OptionValidationError\<close>, the validator throws that same error.
\<close>

theorem validator_rethrows:
  assumes "validateConstraints interaction [] [] = Inl err"
    and "\<forall>c f v message. err \<noteq> OptionValidationError c f v message"
  shows "profileSlashCommandValidator validateConstraints interaction = Inl err"
  using assms by (cases err) (simp_all add: profileSlashCommandValidator_def)

theorem validator_rethrows_witness:
  "profileSlashCommandValidator (\<lambda>i m opts. Inl (Error ''out of memory'')) example_interaction
     = (Inl (Error ''out of memory'') :: nat error + nat ValidatorResult)"
  using validator_rethrows [of "\<lambda>i m opts. Inl (Error ''out of memory'')" example_interaction
      "Error ''out of memory'' :: nat error"]
  by simp




section \<open>The outcome invariant\<close>

text \<open>
  C9. Every outcome the validator or the solver produces has the body shape its status
  declares, and the renderer registered for the status of a solver outcome reads that
  body without failing.
\<close>

theorem outcomes_well_shaped:
  fixes validateConstraints :: "'c validateConstraints" and env :: "'c Collaborators"
  shows "(\<forall>out. profileSlashCommandValidator validateConstraints interaction = Inr (ValidationErrorOutcome out)
       \<longrightarrow> well_shaped out)
   \<and> (\<forall>out. outcome_of (profileSolver env params) = Inr out
       \<longrightarrow> well_shaped out
           \<and> (\<forall>render :: 'c ProfileOutcome \<Rightarrow> 'c error + SlashCommandEmbedDescribedOutcome.
                 profileSlashCommandDescriptions (status out) = Some render
                 \<longrightarrow> (\<exists>described. render out = Inr described)))"
proof (intro conjI allI impI)
  fix out :: "'c ProfileOutcome"
  assume "profileSlashCommandValidator validateConstraints interaction = Inr (ValidationErrorOutcome out)"
  then show "well_shaped out"
    by (auto simp add: profileSlashCommandValidator_def well_shaped_def
        split: sum.splits error.splits option.splits)
next
  fix out :: "'c ProfileOutcome"
  assume out: "outcome_of (profileSolver env params) = Inr out"
  show "well_shaped out"
    using profileSolver_outcomes [OF out] by (auto simp add: well_shaped_def)
next
  fix out :: "'c ProfileOutcome"
    and render :: "'c ProfileOutcome \<Rightarrow> 'c error + SlashCommandEmbedDescribedOutcome"
  assume out: "outcome_of (profileSolver env params) = Inr out"
    and render: "profileSlashCommandDescriptions (status out) = Some render"
  from render have r: "render = describe_SUCCESS_DETAILS" and s: "status out = Specific SUCCESS_DETAILS"
    by (auto simp add: profileSlashCommandDescriptions_def split: if_splits)
  from s have "shape_of (body out) = DetailsShape"
    using profileSolver_outcomes [OF out] by auto
  then show "\<exists>described. render out = Inr described"
    unfolding r by (cases "body out") (simp_all add: describe_SUCCESS_DETAILS_def)
qed

theorem outcomes_well_shaped_witness:
  "well_shaped
     (\<lparr>status = Generic FAIL_VALIDATION,
       body = ValidationErrorBody 5 ''user'' ''nobody'' ''The user must be a member of this server.''\<rparr>
        :: nat ProfileOutcome)
   \<and> well_shaped
       (\<lparr>status = Specific SUCCESS_DETAILS,
         body = SuccessDetailsBody (- 1) 7 \<lparr>details_name = ''Ada'', details_icon = default_icon\<rparr>\<rparr>
          :: nat ProfileOutcome)
   \<and> (\<exists>described.
         (describe_SUCCESS_DETAILS
           \<lparr>status = Specific SUCCESS_DETAILS,
            body = SuccessDetailsBody (- 1) 7 \<lparr>details_name = ''Ada'', details_icon = default_icon\<rparr>\<rparr>
            :: nat error + SlashCommandEmbedDescribedOutcome) = Inr described)"
proof -
  let ?failure = "\<lparr>status = Generic FAIL_VALIDATION,
       body = ValidationErrorBody 5 ''user'' ''nobody'' ''The user must be a member of this server.''\<rparr>
        :: nat ProfileOutcome"
  let ?success = "\<lparr>status = Specific SUCCESS_DETAILS,
         body = SuccessDetailsBody (- 1) 7 \<lparr>details_name = ''Ada'', details_icon = default_icon\<rparr>\<rparr>
          :: nat ProfileOutcome"
  note all = outcomes_well_shaped [of "\<lambda>i m opts. Inl example_validation_error" example_interaction
      example_env example_params]
  have failure: "well_shaped ?failure"
    by (rule all [THEN conjunct1, THEN spec, THEN mp, OF example_validator_failure])
  have success: "well_shaped ?success
      \<and> (\<forall>render :: nat ProfileOutcome \<Rightarrow> nat error + SlashCommandEmbedDescribedOutcome.
            profileSlashCommandDescriptions (status ?success) = Some render
              \<longrightarrow> (\<exists>described. render ?success = Inr described))"
    by (rule all [THEN conjunct2, THEN spec, THEN mp, OF example_profileSolver_outcome])
  have registered: "profileSlashCommandDescriptions (status ?success)
      = Some (describe_SUCCESS_DETAILS
                :: nat ProfileOutcome \<Rightarrow> nat error + SlashCommandEmbedDescribedOutcome)"
    by (simp add: profileSlashCommandDescriptions_def)
  have described: "\<exists>described. (describe_SUCCESS_DETAILS ?success
           :: nat error + SlashCommandEmbedDescribedOutcome) = Inr described"
    by (rule success [THEN conjunct2, THEN spec, THEN mp, OF registered])
  show ?thesis
  proof (intro conjI)
    show "well_shaped ?failure" by (rule failure)
    show "well_shaped ?success" by (rule success [THEN conjunct1])
    show "\<exists>described. (describe_SUCCESS_DETAILS ?success
           :: nat error + SlashCommandEmbedDescribedOutcome) = Inr described"
      by (rule described)
  qed
qed

end
